theory Spec2Isabelle
  imports Main
begin

section \<open>Errors and heights\<close>

text \<open>
  Heights are Go \<open>int64\<close> values. The pruner never does arithmetic on a height: it only
  compares heights and hands them on, so no operation can wrap, and a height is modelled as
  an \<open>int\<close>. The block count (\<open>uint64\<close>) is a \<open>nat\<close>.

  An error is a value. \<open>ErrKeyNotFound\<close> and \<open>ErrInvalidHeightValue\<close> are the two package
  sentinels the pruner names; \<open>ErrorsNew msg\<close> is an error made on the spot by
  \<open>errors.New(msg)\<close>; \<open>StoreError msg\<close> is any other failure reported by a store or by the
  block ledger. A Go \<open>error\<close> result is an \<open>error option\<close>, \<open>None\<close> being \<open>nil\<close>.
\<close>

datatype error =
    ErrKeyNotFound
  | ErrInvalidHeightValue
  | ErrorsNew string
  | StoreError string

definition ErrRetainHeightRegression :: error where
  "ErrRetainHeightRegression =
     ErrorsNew ''cannot set a height lower than previously requested - blocks might have already been pruned''"

definition ErrRetainHeightNotPositive :: error where
  "ErrRetainHeightNotPositive = ErrorsNew ''retain height cannot be less or equal than 0''"

definition AppRetainHeightKey :: string where
  "AppRetainHeightKey = ''AppRetainHeightKey''"

definition CompanionBlockRetainHeightKey :: string where
  "CompanionBlockRetainHeightKey = ''DCBlockRetainHeightKey''"

definition ABCIResultsRetainHeightKey :: string where
  "ABCIResultsRetainHeightKey = ''ABCIResRetainHeightKey''"

section \<open>The collaborators: watermark store, state store, block ledger\<close>

text \<open>
  The pruner holds a block store \<open>bs\<close> and a state store \<open>stateStore\<close>, both interfaces.
  Every call the pruner makes on them is appended to a log, so that what was commanded, in
  which order and with which arguments, is part of the result of each operation.
\<close>

datatype 'st call =
    GetCall string
  | SaveCall string int
  | BaseCall
  | HeightCall
  | LoadCall
  | PruneBlocksCall int 'st
  | PruneStatesCall int int int
  | PruneABCIResponsesCall int

text \<open>
  The world the pruner acts on: the persisted watermarks, by key, and the log of calls.
\<close>

record 'st world =
  db :: "string \<rightharpoonup> int"
  calls :: "'st call list"

text \<open>
  What the collaborators answer. \<open>'st\<close> is the consensus state, which the pruner only
  passes from \<open>Load\<close> to \<open>PruneBlocks\<close>. A read or a write of a watermark may fail with an
  I/O error (\<open>get_fault\<close>, \<open>save_fault\<close>, by key); the ledger reports its bounds; loading
  and the three prune commands answer as the Go signatures say, a value together with an
  error.
\<close>

record 'st env =
  get_fault :: "string \<Rightarrow> string option"
  save_fault :: "string \<Rightarrow> string option"
  ledger_base :: int
  ledger_height :: int
  load_result :: "'st \<times> error option"
  prune_blocks_result :: "int \<Rightarrow> 'st \<Rightarrow> nat \<times> int \<times> error option"
  prune_states_result :: "int \<Rightarrow> int \<Rightarrow> int \<Rightarrow> error option"
  prune_abci_result :: "int \<Rightarrow> nat \<times> error option"

definition logged :: "'st call \<Rightarrow> 'st world \<Rightarrow> 'st world" where
  "logged c w = w\<lparr>calls := calls w @ [c]\<rparr>"

definition store_get :: "'st env \<Rightarrow> string \<Rightarrow> 'st world \<Rightarrow> (int \<times> error option) \<times> 'st world" where
  \<comment> \<open>Modelled from the spec: the watermark store's read is not in the source. It answers
      the persisted height, or the distinguished not-found signal when the watermark was
      never set, or an I/O error; with an error the height is Go's zero value.\<close>
  "store_get p k w =
     (case get_fault p k of
        Some msg \<Rightarrow> ((0, Some (StoreError msg)), logged (GetCall k) w)
      | None \<Rightarrow>
          (case db w k of
             None \<Rightarrow> ((0, Some ErrKeyNotFound), logged (GetCall k) w)
           | Some v \<Rightarrow> ((v, None), logged (GetCall k) w)))"

definition store_save :: "'st env \<Rightarrow> string \<Rightarrow> int \<Rightarrow> 'st world \<Rightarrow> error option \<times> 'st world" where
  \<comment> \<open>Modelled from the spec: the watermark store's write is not in the source. It
      persists the height under the key, or fails with an I/O error and persists nothing.\<close>
  "store_save p k v w =
     (case save_fault p k of
        Some msg \<Rightarrow> (Some (StoreError msg), logged (SaveCall k v) w)
      | None \<Rightarrow> (None, (logged (SaveCall k v) w)\<lparr>db := (db w)(k \<mapsto> v)\<rparr>))"

definition GetApplicationRetainHeight :: "'st env \<Rightarrow> 'st world \<Rightarrow> (int \<times> error option) \<times> 'st world" where
  "GetApplicationRetainHeight p = store_get p AppRetainHeightKey"

definition GetCompanionBlockRetainHeight :: "'st env \<Rightarrow> 'st world \<Rightarrow> (int \<times> error option) \<times> 'st world" where
  "GetCompanionBlockRetainHeight p = store_get p CompanionBlockRetainHeightKey"

definition GetABCIResRetainHeight :: "'st env \<Rightarrow> 'st world \<Rightarrow> (int \<times> error option) \<times> 'st world" where
  "GetABCIResRetainHeight p = store_get p ABCIResultsRetainHeightKey"

definition SaveApplicationRetainHeight :: "'st env \<Rightarrow> int \<Rightarrow> 'st world \<Rightarrow> error option \<times> 'st world" where
  "SaveApplicationRetainHeight p = store_save p AppRetainHeightKey"

definition SaveCompanionBlockRetainHeight :: "'st env \<Rightarrow> int \<Rightarrow> 'st world \<Rightarrow> error option \<times> 'st world" where
  "SaveCompanionBlockRetainHeight p = store_save p CompanionBlockRetainHeightKey"

definition SaveABCIResRetainHeight :: "'st env \<Rightarrow> int \<Rightarrow> 'st world \<Rightarrow> error option \<times> 'st world" where
  "SaveABCIResRetainHeight p = store_save p ABCIResultsRetainHeightKey"

definition Base :: "'st env \<Rightarrow> 'st world \<Rightarrow> int \<times> 'st world" where
  "Base p w = (ledger_base p, logged BaseCall w)"

definition Height :: "'st env \<Rightarrow> 'st world \<Rightarrow> int \<times> 'st world" where
  "Height p w = (ledger_height p, logged HeightCall w)"

definition Load :: "'st env \<Rightarrow> 'st world \<Rightarrow> ('st \<times> error option) \<times> 'st world" where
  "Load p w = (load_result p, logged LoadCall w)"

definition PruneBlocks ::
    "'st env \<Rightarrow> int \<Rightarrow> 'st \<Rightarrow> 'st world \<Rightarrow> (nat \<times> int \<times> error option) \<times> 'st world" where
  "PruneBlocks p height state w =
     (prune_blocks_result p height state, logged (PruneBlocksCall height state) w)"

definition PruneStates ::
    "'st env \<Rightarrow> int \<Rightarrow> int \<Rightarrow> int \<Rightarrow> 'st world \<Rightarrow> error option \<times> 'st world" where
  "PruneStates p base height evRetainHeight w =
     (prune_states_result p base height evRetainHeight,
      logged (PruneStatesCall base height evRetainHeight) w)"

definition PruneABCIResponses ::
    "'st env \<Rightarrow> int \<Rightarrow> 'st world \<Rightarrow> (nat \<times> error option) \<times> 'st world" where
  "PruneABCIResponses p height w =
     (prune_abci_result p height, logged (PruneABCIResponsesCall height) w)"

section \<open>The resolver\<close>

text \<open>
  \<open>FindMinRetainHeight\<close> (\<open>state/pruner.go\<close>, lines 209 to 235), as written: the
  application's read comes first; any error but
  not-found returns 0 at once. Then the companion's read: not-found returns the
  application's height when that one was set, any other error returns 0. Every path that
  has not returned ends in the comparison of the two heights read.
\<close>

definition FindMinRetainHeight :: "'st env \<Rightarrow> 'st world \<Rightarrow> int \<times> 'st world" where
  "FindMinRetainHeight p w0 =
     (let ((appRetainHeight, err), w1) = GetApplicationRetainHeight p w0 in
      case (case err of
              None \<Rightarrow> Inr False
            | Some e \<Rightarrow> if e = ErrKeyNotFound then Inr True else Inl (0::int)) of
        Inl r \<Rightarrow> (r, w1)
      | Inr noAppRetainHeightSet \<Rightarrow>
          (let ((dcRetainHeight, err), w2) = GetCompanionBlockRetainHeight p w1 in
           case (case err of
                   None \<Rightarrow> None
                 | Some e \<Rightarrow>
                     if e = ErrKeyNotFound
                     then (if \<not> noAppRetainHeightSet then Some appRetainHeight else None)
                     else Some 0) of
             Some r \<Rightarrow> (r, w2)
           | None \<Rightarrow>
               if appRetainHeight < dcRetainHeight then (appRetainHeight, w2)
               else (dcRetainHeight, w2)))"

section \<open>The registry\<close>

text \<open>
  The three setters (\<open>state/pruner.go\<close>, lines 87 to 172), as written. The range
  check is a short-circuit disjunction, so the ledger is asked for its base only for a positive height, and for its height only when
  the base did not already reject. A not-found answer for the stakeholder's own watermark
  stands for the requested height; for the other stakeholder's it sets a flag that
  switches the comparison off. Any other read error is returned as it is.
\<close>

definition SetApplicationRetainHeight :: "'st env \<Rightarrow> int \<Rightarrow> 'st world \<Rightarrow> error option \<times> 'st world" where
  "SetApplicationRetainHeight p height w0 =
     (if height \<le> 0 then (Some ErrInvalidHeightValue, w0)
      else let (base, w1) = Base p w0 in
      if height < base then (Some ErrInvalidHeightValue, w1)
      else let (top, w2) = Height p w1 in
      if height > top then (Some ErrInvalidHeightValue, w2)
      else let ((got, err), w3) = GetApplicationRetainHeight p w2 in
      case (case err of
              None \<Rightarrow> Inr got
            | Some e \<Rightarrow> if e = ErrKeyNotFound then Inr height else Inl e) of
        Inl e \<Rightarrow> (Some e, w3)
      | Inr currentAppRetainHeight \<Rightarrow>
          (let ((currentCompanionRetainHeight, err), w4) = GetCompanionBlockRetainHeight p w3 in
           case (case err of
                   None \<Rightarrow> Inr False
                 | Some e \<Rightarrow> if e = ErrKeyNotFound then Inr True else Inl e) of
             Inl e \<Rightarrow> (Some e, w4)
           | Inr noCompanionRetainHeight \<Rightarrow>
               if currentAppRetainHeight > height
                  \<or> (\<not> noCompanionRetainHeight \<and> currentCompanionRetainHeight > height)
               then (Some ErrRetainHeightRegression, w4)
               else SaveApplicationRetainHeight p height w4))"

definition SetCompanionRetainHeight :: "'st env \<Rightarrow> int \<Rightarrow> 'st world \<Rightarrow> error option \<times> 'st world" where
  "SetCompanionRetainHeight p height w0 =
     (if height \<le> 0 then (Some ErrInvalidHeightValue, w0)
      else let (base, w1) = Base p w0 in
      if height < base then (Some ErrInvalidHeightValue, w1)
      else let (top, w2) = Height p w1 in
      if height > top then (Some ErrInvalidHeightValue, w2)
      else let ((got, err), w3) = GetCompanionBlockRetainHeight p w2 in
      case (case err of
              None \<Rightarrow> Inr got
            | Some e \<Rightarrow> if e = ErrKeyNotFound then Inr height else Inl e) of
        Inl e \<Rightarrow> (Some e, w3)
      | Inr currentCompanionRetainHeight \<Rightarrow>
          (let ((currentAppRetainHeight, err), w4) = GetApplicationRetainHeight p w3 in
           case (case err of
                   None \<Rightarrow> Inr False
                 | Some e \<Rightarrow> if e = ErrKeyNotFound then Inr True else Inl e) of
             Inl e \<Rightarrow> (Some e, w4)
           | Inr noAppRetainHeight \<Rightarrow>
               if currentCompanionRetainHeight > height
                  \<or> (\<not> noAppRetainHeight \<and> currentAppRetainHeight > height)
               then (Some ErrRetainHeightRegression, w4)
               else SaveCompanionBlockRetainHeight p height w4))"

definition SetABCIResRetainHeight :: "'st env \<Rightarrow> int \<Rightarrow> 'st world \<Rightarrow> error option \<times> 'st world" where
  "SetABCIResRetainHeight p height w0 =
     (if height \<le> 0 then (Some ErrInvalidHeightValue, w0)
      else let (top, w1) = Height p w0 in
      if height > top then (Some ErrInvalidHeightValue, w1)
      else let ((currentRetainHeight, err), w2) = GetABCIResRetainHeight p w1 in
      case err of
        Some e \<Rightarrow>
          if e = ErrKeyNotFound then SaveABCIResRetainHeight p height w2
          else (Some e, w2)
      | None \<Rightarrow>
          if currentRetainHeight > height then (Some ErrRetainHeightRegression, w2)
          else SaveABCIResRetainHeight p height w2)"

section \<open>The prune executor\<close>

text \<open>
  \<open>pruneBlocks\<close> (\<open>state/pruner.go\<close>, lines 237 to 262) has named results \<open>pruned\<close>, \<open>evRetainHeight\<close> and \<open>err\<close>. The bare
  \<open>return\<close> after a failed \<open>Load\<close> returns them as they stand: zero, zero and the load's
  error. After the ledger's \<open>PruneBlocks\<close> the error is only logged, and \<open>err\<close> is then
  assigned again from \<open>PruneStates\<close>. Calls on the logger are not modelled.
\<close>

definition pruneBlocks ::
    "'st env \<Rightarrow> int \<Rightarrow> 'st world \<Rightarrow> (nat \<times> int \<times> error option) \<times> 'st world" where
  "pruneBlocks p height w0 =
     (if height \<le> 0 then ((0, 0, Some ErrRetainHeightNotPositive), w0)
      else let (base, w1) = Base p w0;
               ((state, err), w2) = Load p w1 in
      case err of
        Some e \<Rightarrow> ((0, 0, Some e), w2)
      | None \<Rightarrow>
          (let ((pruned, evRetainHeight, err), w3) = PruneBlocks p height state w2;
               (err, w4) = PruneStates p base height evRetainHeight w3
           in ((pruned, evRetainHeight, err), w4)))"

section \<open>The scheduler\<close>

text \<open>
  The loop (\<open>pruningRoutine\<close>, \<open>state/pruner.go\<close>, lines 174 to 203) keeps two variables,
  both zero at the start. One pass of its \<open>default\<close> branch is \<open>pruningIteration\<close>;
  the sleep at its end is not modelled. The loop runs a pass each time it does not find
  the quit channel closed, so a run is given by what the collaborators answer in each pass
  made before that: \<open>pruningRoutine\<close> takes one environment per pass and stops when the
  list is used up.
\<close>

record loop_vars =
  lastHeightPruned :: int
  lastABCIResPrunedHeight :: int

definition pruningIteration ::
    "'st env \<Rightarrow> loop_vars \<times> 'st world \<Rightarrow> loop_vars \<times> 'st world" where
  "pruningIteration p s =
     (let (l0, w0) = s;
          (retainHeight, w1) = FindMinRetainHeight p w0;
          (l1, w2) =
            (if retainHeight \<noteq> lastHeightPruned l0
             then (l0\<lparr>lastHeightPruned := retainHeight\<rparr>, snd (pruneBlocks p retainHeight w1))
             else (l0, w1));
          ((ABCIResRetainHeight, err), w3) = GetABCIResRetainHeight p w2;
          w4 =
            (if err = None
             then (if lastABCIResPrunedHeight l1 \<noteq> ABCIResRetainHeight
                   then snd (PruneABCIResponses p ABCIResRetainHeight w3)
                   else w3)
             else w3)
      in (l1, w4))"

fun pruningLoop :: "'st env list \<Rightarrow> loop_vars \<times> 'st world \<Rightarrow> loop_vars \<times> 'st world" where
  "pruningLoop [] s = s"
| "pruningLoop (p # ps) s = pruningLoop ps (pruningIteration p s)"

definition pruningRoutine :: "'st env list \<Rightarrow> 'st world \<Rightarrow> loop_vars \<times> 'st world" where
  "pruningRoutine ps w =
     pruningLoop ps (\<lparr>lastHeightPruned = 0, lastABCIResPrunedHeight = 0\<rparr>, w)"

section \<open>Fixtures\<close>

text \<open>
  A ledger holding blocks 1 to 100 whose stores never fail, the scenario the specification
  uses, and a world in which no watermark was ever set.
\<close>

definition ledger_1_100 :: "unit env" where
  "ledger_1_100 =
     \<lparr>get_fault = (\<lambda>_. None), save_fault = (\<lambda>_. None),
      ledger_base = 1, ledger_height = 100,
      load_result = ((), None),
      prune_blocks_result = (\<lambda>h _. (0, h, None)),
      prune_states_result = (\<lambda>_ _ _. None),
      prune_abci_result = (\<lambda>_. (0, None))\<rparr>"

definition fresh :: "unit world" where
  "fresh = \<lparr>db = Map.empty, calls = []\<rparr>"

text \<open>
  A ledger whose \<open>PruneBlocks\<close> fails, giving back no block, the floor \<open>-1\<close> and an
  error, while the state store goes on working; and a state store that cannot load the
  consensus state.
\<close>

definition failing_ledger :: "unit env" where
  "failing_ledger =
     ledger_1_100\<lparr>prune_blocks_result :=
       (\<lambda>_ _. (0, - 1, Some (StoreError ''ledger unavailable'')))\<rparr>"

definition failing_load :: "unit env" where
  "failing_load = ledger_1_100\<lparr>load_result := ((), Some (StoreError ''no state''))\<rparr>"

text \<open>A watermark that is unset, or set no higher than \<open>h\<close>.\<close>

definition not_above :: "int option \<Rightarrow> int \<Rightarrow> bool" where
  "not_above v h = (case v of None \<Rightarrow> True | Some c \<Rightarrow> c \<le> h)"

section \<open>Facts about the collaborators\<close>

lemma retain_keys_distinct [simp]:
  "AppRetainHeightKey \<noteq> CompanionBlockRetainHeightKey"
  "CompanionBlockRetainHeightKey \<noteq> AppRetainHeightKey"
  "AppRetainHeightKey \<noteq> ABCIResultsRetainHeightKey"
  "ABCIResultsRetainHeightKey \<noteq> AppRetainHeightKey"
  "CompanionBlockRetainHeightKey \<noteq> ABCIResultsRetainHeightKey"
  "ABCIResultsRetainHeightKey \<noteq> CompanionBlockRetainHeightKey"
  by (simp_all add: AppRetainHeightKey_def CompanionBlockRetainHeightKey_def
        ABCIResultsRetainHeightKey_def)

lemma logged_simps [simp]:
  "db (logged c w) = db w"
  "calls (logged c w) = calls w @ [c]"
  by (simp_all add: logged_def)

lemmas store_defs =
  store_get_def store_save_def
  GetApplicationRetainHeight_def GetCompanionBlockRetainHeight_def GetABCIResRetainHeight_def
  SaveApplicationRetainHeight_def SaveCompanionBlockRetainHeight_def SaveABCIResRetainHeight_def
  Base_def Height_def Load_def PruneBlocks_def PruneStates_def PruneABCIResponses_def

section \<open>The resolver: results\<close>

lemma FindMinRetainHeight_db:
  "db (snd (FindMinRetainHeight p w)) = db w"
  by (simp add: FindMinRetainHeight_def store_defs split: option.splits)

lemma FindMinRetainHeight_calls:
  "calls (snd (FindMinRetainHeight p w)) = calls w @ [GetCall AppRetainHeightKey]
   \<or> calls (snd (FindMinRetainHeight p w)) =
       calls w @ [GetCall AppRetainHeightKey, GetCall CompanionBlockRetainHeightKey]"
  by (simp add: FindMinRetainHeight_def store_defs split: option.splits)

lemma FindMinRetainHeight_again:
  "fst (FindMinRetainHeight p (snd (FindMinRetainHeight p w))) = fst (FindMinRetainHeight p w)"
  by (simp add: FindMinRetainHeight_def store_defs split: option.splits)

text \<open>
  What the resolver returns when both reads go through. With the application's watermark
  unset the final comparison runs on the zero that came with the not-found answer.
\<close>

lemma FindMinRetainHeight_value:
  assumes "get_fault p AppRetainHeightKey = None"
    and "get_fault p CompanionBlockRetainHeightKey = None"
  shows "fst (FindMinRetainHeight p w) =
     (case (db w AppRetainHeightKey, db w CompanionBlockRetainHeightKey) of
        (None, None) \<Rightarrow> 0
      | (Some a, None) \<Rightarrow> a
      | (None, Some c) \<Rightarrow> min 0 c
      | (Some a, Some c) \<Rightarrow> min a c)"
  using assms
  by (simp add: FindMinRetainHeight_def store_defs min_def split: option.splits)

text \<open>
  C1. The resolver is to return 0 when neither watermark is set, the set one when exactly
  one is set, and the minimum when both are. With the application's watermark unset and
  the companion's set to 7 the code returns 0, not 7: the companion's read succeeds, so
  nothing returns early, and the final comparison takes the smaller of 0 and 7.
\<close>

theorem FindMinRetainHeight_companion_only:
  "fst (FindMinRetainHeight ledger_1_100
          (fresh\<lparr>db := [CompanionBlockRetainHeightKey \<mapsto> 7]\<rparr>)) = 0
   \<and> fst (FindMinRetainHeight ledger_1_100
          (fresh\<lparr>db := [CompanionBlockRetainHeightKey \<mapsto> 7]\<rparr>)) \<noteq> 7"
  by (simp add: FindMinRetainHeight_def store_defs ledger_1_100_def fresh_def)

text \<open>
  C9. The resolver writes nothing: it leaves every persisted watermark as it was, and the
  only calls it makes are the read of the application's watermark and, at most, the read
  of the companion's. Called again on the world it left, it returns the same height.
\<close>

theorem FindMinRetainHeight_reads_only:
  "db (snd (FindMinRetainHeight p w)) = db w
   \<and> (calls (snd (FindMinRetainHeight p w)) = calls w @ [GetCall AppRetainHeightKey]
      \<or> calls (snd (FindMinRetainHeight p w)) =
          calls w @ [GetCall AppRetainHeightKey, GetCall CompanionBlockRetainHeightKey])
   \<and> fst (FindMinRetainHeight p (snd (FindMinRetainHeight p w))) = fst (FindMinRetainHeight p w)"
  using FindMinRetainHeight_db [of p w] FindMinRetainHeight_calls [of p w]
    FindMinRetainHeight_again [of p w]
  by simp

theorem FindMinRetainHeight_reads_only_witness:
  "db (snd (FindMinRetainHeight ledger_1_100
              (fresh\<lparr>db := [AppRetainHeightKey \<mapsto> 5, CompanionBlockRetainHeightKey \<mapsto> 7]\<rparr>)))
     = [AppRetainHeightKey \<mapsto> 5, CompanionBlockRetainHeightKey \<mapsto> 7]
   \<and> fst (FindMinRetainHeight ledger_1_100
       (snd (FindMinRetainHeight ledger_1_100
              (fresh\<lparr>db := [AppRetainHeightKey \<mapsto> 5, CompanionBlockRetainHeightKey \<mapsto> 7]\<rparr>)))) = 5"
  using FindMinRetainHeight_reads_only
    [of ledger_1_100 "fresh\<lparr>db := [AppRetainHeightKey \<mapsto> 5, CompanionBlockRetainHeightKey \<mapsto> 7]\<rparr>"]
  by (simp add: FindMinRetainHeight_def store_defs ledger_1_100_def fresh_def)

section \<open>The registry: results\<close>

text \<open>
  Past the range check, and when both reads go through, a setter of a stakeholder's
  watermark has made four calls and either rejects or hands over to the store's write.
\<close>

lemma SetApplicationRetainHeight_in_range:
  assumes "0 < h" "ledger_base p \<le> h" "h \<le> ledger_height p"
    and "get_fault p AppRetainHeightKey = None"
    and "get_fault p CompanionBlockRetainHeightKey = None"
  shows "SetApplicationRetainHeight p h w =
     (let w4 = w\<lparr>calls := calls w @ [BaseCall, HeightCall, GetCall AppRetainHeightKey,
                      GetCall CompanionBlockRetainHeightKey]\<rparr> in
      if (case db w AppRetainHeightKey of None \<Rightarrow> h | Some c \<Rightarrow> c) > h
         \<or> (case db w CompanionBlockRetainHeightKey of None \<Rightarrow> False | Some c \<Rightarrow> c > h)
      then (Some ErrRetainHeightRegression, w4)
      else SaveApplicationRetainHeight p h w4)"
  using assms
  by (simp add: SetApplicationRetainHeight_def store_defs logged_def split: option.splits)

lemma SetCompanionRetainHeight_in_range:
  assumes "0 < h" "ledger_base p \<le> h" "h \<le> ledger_height p"
    and "get_fault p AppRetainHeightKey = None"
    and "get_fault p CompanionBlockRetainHeightKey = None"
  shows "SetCompanionRetainHeight p h w =
     (let w4 = w\<lparr>calls := calls w @ [BaseCall, HeightCall, GetCall CompanionBlockRetainHeightKey,
                      GetCall AppRetainHeightKey]\<rparr> in
      if (case db w CompanionBlockRetainHeightKey of None \<Rightarrow> h | Some c \<Rightarrow> c) > h
         \<or> (case db w AppRetainHeightKey of None \<Rightarrow> False | Some c \<Rightarrow> c > h)
      then (Some ErrRetainHeightRegression, w4)
      else SaveCompanionBlockRetainHeight p h w4)"
  using assms
  by (simp add: SetCompanionRetainHeight_def store_defs logged_def split: option.splits)

lemma SetABCIResRetainHeight_in_range:
  assumes "0 < h" "h \<le> ledger_height p"
    and "get_fault p ABCIResultsRetainHeightKey = None"
  shows "SetABCIResRetainHeight p h w =
     (let w2 = w\<lparr>calls := calls w @ [HeightCall, GetCall ABCIResultsRetainHeightKey]\<rparr> in
      if (case db w ABCIResultsRetainHeightKey of None \<Rightarrow> False | Some c \<Rightarrow> c > h)
      then (Some ErrRetainHeightRegression, w2)
      else SaveABCIResRetainHeight p h w2)"
  using assms
  by (simp add: SetABCIResRetainHeight_def store_defs logged_def split: option.splits)

lemma SetApplicationRetainHeight_invalid:
  "fst (SetApplicationRetainHeight p h w) = Some ErrInvalidHeightValue
   \<longleftrightarrow> \<not> (0 < h \<and> ledger_base p \<le> h \<and> h \<le> ledger_height p)"
  by (auto simp add: SetApplicationRetainHeight_def store_defs ErrRetainHeightRegression_def
        split: option.splits)

lemma SetCompanionRetainHeight_invalid:
  "fst (SetCompanionRetainHeight p h w) = Some ErrInvalidHeightValue
   \<longleftrightarrow> \<not> (0 < h \<and> ledger_base p \<le> h \<and> h \<le> ledger_height p)"
  by (auto simp add: SetCompanionRetainHeight_def store_defs ErrRetainHeightRegression_def
        split: option.splits)

lemma SetABCIResRetainHeight_invalid:
  "fst (SetABCIResRetainHeight p h w) = Some ErrInvalidHeightValue
   \<longleftrightarrow> \<not> (0 < h \<and> h \<le> ledger_height p)"
  by (auto simp add: SetABCIResRetainHeight_def store_defs ErrRetainHeightRegression_def
        split: option.splits)

text \<open>
  C5. The setters of the application's and of the companion's watermark fail with the
  invalid-height error exactly when the requested height is not positive, or is below the
  ledger's base, or is above the ledger's height. The setter of the ABCI-results watermark
  fails with it exactly when the height is not positive or is above the ledger's height:
  the ledger's base plays no part.
\<close>

theorem range_validation:
  "(fst (SetApplicationRetainHeight p h w) = Some ErrInvalidHeightValue
      \<longleftrightarrow> \<not> (0 < h \<and> ledger_base p \<le> h \<and> h \<le> ledger_height p))
   \<and> (fst (SetCompanionRetainHeight p h w) = Some ErrInvalidHeightValue
      \<longleftrightarrow> \<not> (0 < h \<and> ledger_base p \<le> h \<and> h \<le> ledger_height p))
   \<and> (fst (SetABCIResRetainHeight p h w) = Some ErrInvalidHeightValue
      \<longleftrightarrow> \<not> (0 < h \<and> h \<le> ledger_height p))"
  using SetApplicationRetainHeight_invalid [of p h w] SetCompanionRetainHeight_invalid [of p h w]
    SetABCIResRetainHeight_invalid [of p h w]
  by simp

theorem range_validation_witness:
  "fst (SetApplicationRetainHeight (ledger_1_100\<lparr>ledger_base := 10\<rparr>) 5 fresh)
     = Some ErrInvalidHeightValue
   \<and> fst (SetCompanionRetainHeight (ledger_1_100\<lparr>ledger_base := 10\<rparr>) 5 fresh)
     = Some ErrInvalidHeightValue
   \<and> fst (SetABCIResRetainHeight (ledger_1_100\<lparr>ledger_base := 10\<rparr>) 5 fresh)
     \<noteq> Some ErrInvalidHeightValue"
  using range_validation [of "ledger_1_100\<lparr>ledger_base := 10\<rparr>" 5 fresh]
  by (simp add: ledger_1_100_def)

text \<open>
  C2. For a height in range, and when the two reads go through: the setter of a
  stakeholder's watermark fails with the regression error exactly when that stakeholder's
  current watermark, an unset one standing for the requested height, or the other
  stakeholder's current watermark, an unset one constraining nothing, exceeds the
  requested height. It has then made its two range calls and its two reads and no write.
  Otherwise the write is made, and when the store accepts it the call succeeds and the
  requested height is the stakeholder's persisted watermark.
\<close>

theorem regression_check:
  assumes "0 < h" "ledger_base p \<le> h" "h \<le> ledger_height p"
    and "get_fault p AppRetainHeightKey = None"
    and "get_fault p CompanionBlockRetainHeightKey = None"
  shows
   "(fst (SetApplicationRetainHeight p h w) = Some ErrRetainHeightRegression
       \<longleftrightarrow> (case db w AppRetainHeightKey of None \<Rightarrow> h | Some c \<Rightarrow> c) > h
           \<or> (case db w CompanionBlockRetainHeightKey of None \<Rightarrow> False | Some c \<Rightarrow> c > h))
    \<and> (fst (SetApplicationRetainHeight p h w) = Some ErrRetainHeightRegression
       \<longrightarrow> snd (SetApplicationRetainHeight p h w) =
             w\<lparr>calls := calls w @ [BaseCall, HeightCall, GetCall AppRetainHeightKey,
                        GetCall CompanionBlockRetainHeightKey]\<rparr>)
    \<and> (fst (SetApplicationRetainHeight p h w) \<noteq> Some ErrRetainHeightRegression
         \<and> save_fault p AppRetainHeightKey = None
       \<longrightarrow> fst (SetApplicationRetainHeight p h w) = None
           \<and> db (snd (SetApplicationRetainHeight p h w)) = (db w)(AppRetainHeightKey \<mapsto> h))
    \<and> (fst (SetCompanionRetainHeight p h w) = Some ErrRetainHeightRegression
       \<longleftrightarrow> (case db w CompanionBlockRetainHeightKey of None \<Rightarrow> h | Some c \<Rightarrow> c) > h
           \<or> (case db w AppRetainHeightKey of None \<Rightarrow> False | Some c \<Rightarrow> c > h))
    \<and> (fst (SetCompanionRetainHeight p h w) = Some ErrRetainHeightRegression
       \<longrightarrow> snd (SetCompanionRetainHeight p h w) =
             w\<lparr>calls := calls w @ [BaseCall, HeightCall, GetCall CompanionBlockRetainHeightKey,
                        GetCall AppRetainHeightKey]\<rparr>)
    \<and> (fst (SetCompanionRetainHeight p h w) \<noteq> Some ErrRetainHeightRegression
         \<and> save_fault p CompanionBlockRetainHeightKey = None
       \<longrightarrow> fst (SetCompanionRetainHeight p h w) = None
           \<and> db (snd (SetCompanionRetainHeight p h w)) =
               (db w)(CompanionBlockRetainHeightKey \<mapsto> h))"
  using assms
  by (auto simp add: SetApplicationRetainHeight_in_range SetCompanionRetainHeight_in_range
        store_defs ErrRetainHeightRegression_def Let_def split: option.splits)

text \<open>
  The scenario of the specification: on the ledger of blocks 1 to 100 the application
  sets 50, then the companion asks for 30 and is refused, and nothing but the
  application's 50 is persisted.
\<close>

theorem regression_check_witness:
  "fst (SetApplicationRetainHeight ledger_1_100 50 fresh) = None
   \<and> fst (SetCompanionRetainHeight ledger_1_100 30
            (snd (SetApplicationRetainHeight ledger_1_100 50 fresh)))
       = Some ErrRetainHeightRegression
   \<and> db (snd (SetCompanionRetainHeight ledger_1_100 30
            (snd (SetApplicationRetainHeight ledger_1_100 50 fresh))))
       = [AppRetainHeightKey \<mapsto> 50]"
  using regression_check
    [of 30 ledger_1_100 "snd (SetApplicationRetainHeight ledger_1_100 50 fresh)"]
  by (simp add: SetApplicationRetainHeight_def store_defs ledger_1_100_def fresh_def)

text \<open>
  C6, as stated, at equal heights: setting the application's watermark to 5 and then to
  5 again does not fail the second time.
\<close>

theorem set_same_height_twice:
  "fst (SetApplicationRetainHeight ledger_1_100 5 fresh) = None
   \<and> fst (SetApplicationRetainHeight ledger_1_100 5
           (snd (SetApplicationRetainHeight ledger_1_100 5 fresh))) = None
   \<and> fst (SetApplicationRetainHeight ledger_1_100 5
           (snd (SetApplicationRetainHeight ledger_1_100 5 fresh)))
       \<noteq> Some ErrRetainHeightRegression"
  by (simp add: SetApplicationRetainHeight_def store_defs ledger_1_100_def fresh_def)

text \<open>
  C6, amended. Let \<open>H1 \<le> H2\<close> be valid heights and let the store's reads and writes go
  through. For each of the three watermarks: from a state in which the watermarks the
  setter looks at are unset or not above \<open>H1\<close>, setting \<open>H1\<close> and then \<open>H2\<close> succeeds both
  times; and when \<open>H1 < H2\<close>, setting \<open>H2\<close> and then \<open>H1\<close> makes the second call fail with
  the regression error.
\<close>

theorem set_twice:
  assumes "0 < H1" "H1 \<le> H2" "H2 \<le> ledger_height p"
    and "get_fault p AppRetainHeightKey = None"
    and "get_fault p CompanionBlockRetainHeightKey = None"
    and "get_fault p ABCIResultsRetainHeightKey = None"
    and "save_fault p AppRetainHeightKey = None"
    and "save_fault p CompanionBlockRetainHeightKey = None"
    and "save_fault p ABCIResultsRetainHeightKey = None"
  shows
   "(ledger_base p \<le> H1 \<and> not_above (db w AppRetainHeightKey) H1
       \<and> not_above (db w CompanionBlockRetainHeightKey) H1
      \<longrightarrow> fst (SetApplicationRetainHeight p H1 w) = None
        \<and> fst (SetApplicationRetainHeight p H2 (snd (SetApplicationRetainHeight p H1 w))) = None
        \<and> fst (SetCompanionRetainHeight p H1 w) = None
        \<and> fst (SetCompanionRetainHeight p H2 (snd (SetCompanionRetainHeight p H1 w))) = None)
    \<and> (not_above (db w ABCIResultsRetainHeightKey) H1
      \<longrightarrow> fst (SetABCIResRetainHeight p H1 w) = None
        \<and> fst (SetABCIResRetainHeight p H2 (snd (SetABCIResRetainHeight p H1 w))) = None)
    \<and> (ledger_base p \<le> H1 \<and> H1 < H2
      \<longrightarrow> fst (SetApplicationRetainHeight p H1 (snd (SetApplicationRetainHeight p H2 w)))
            = Some ErrRetainHeightRegression
        \<and> fst (SetCompanionRetainHeight p H1 (snd (SetCompanionRetainHeight p H2 w)))
            = Some ErrRetainHeightRegression)
    \<and> (H1 < H2
      \<longrightarrow> fst (SetABCIResRetainHeight p H1 (snd (SetABCIResRetainHeight p H2 w)))
            = Some ErrRetainHeightRegression)"
proof -
  have app: "ledger_base p \<le> H1 \<Longrightarrow>
      (not_above (db w AppRetainHeightKey) H1 \<and> not_above (db w CompanionBlockRetainHeightKey) H1
         \<longrightarrow> fst (SetApplicationRetainHeight p H1 w) = None
           \<and> fst (SetApplicationRetainHeight p H2 (snd (SetApplicationRetainHeight p H1 w))) = None)
      \<and> (H1 < H2 \<longrightarrow>
            fst (SetApplicationRetainHeight p H1 (snd (SetApplicationRetainHeight p H2 w)))
              = Some ErrRetainHeightRegression)"
    using assms
    by (auto simp add: SetApplicationRetainHeight_in_range not_above_def
          store_defs Let_def split: option.splits)
  have comp: "ledger_base p \<le> H1 \<Longrightarrow>
      (not_above (db w AppRetainHeightKey) H1 \<and> not_above (db w CompanionBlockRetainHeightKey) H1
         \<longrightarrow> fst (SetCompanionRetainHeight p H1 w) = None
           \<and> fst (SetCompanionRetainHeight p H2 (snd (SetCompanionRetainHeight p H1 w))) = None)
      \<and> (H1 < H2 \<longrightarrow>
            fst (SetCompanionRetainHeight p H1 (snd (SetCompanionRetainHeight p H2 w)))
              = Some ErrRetainHeightRegression)"
    using assms
    by (auto simp add: SetCompanionRetainHeight_in_range not_above_def
          store_defs Let_def split: option.splits)
  have abci:
     "(not_above (db w ABCIResultsRetainHeightKey) H1
         \<longrightarrow> fst (SetABCIResRetainHeight p H1 w) = None
           \<and> fst (SetABCIResRetainHeight p H2 (snd (SetABCIResRetainHeight p H1 w))) = None)
      \<and> (H1 < H2 \<longrightarrow>
            fst (SetABCIResRetainHeight p H1 (snd (SetABCIResRetainHeight p H2 w)))
              = Some ErrRetainHeightRegression)"
    using assms
    by (auto simp add: SetABCIResRetainHeight_in_range not_above_def
          store_defs Let_def split: option.splits)
  from app comp abci show ?thesis by blast
qed

theorem set_twice_witness:
  "fst (SetApplicationRetainHeight ledger_1_100 30 fresh) = None
   \<and> fst (SetApplicationRetainHeight ledger_1_100 50
           (snd (SetApplicationRetainHeight ledger_1_100 30 fresh))) = None
   \<and> fst (SetABCIResRetainHeight ledger_1_100 50
           (snd (SetABCIResRetainHeight ledger_1_100 30 fresh))) = None
   \<and> fst (SetCompanionRetainHeight ledger_1_100 30
           (snd (SetCompanionRetainHeight ledger_1_100 50 fresh)))
       = Some ErrRetainHeightRegression
   \<and> fst (SetABCIResRetainHeight ledger_1_100 30
           (snd (SetABCIResRetainHeight ledger_1_100 50 fresh)))
       = Some ErrRetainHeightRegression"
  using set_twice [of 30 50 ledger_1_100 fresh]
  by (simp add: ledger_1_100_def fresh_def not_above_def)

text \<open>
  C7, as stated, on the ledger of blocks 1 to 100: with the companion's watermark at 30
  the application's request for 50 is accepted, and with the companion's watermark at 50
  the application's request for 30 is refused. The claim says the opposite of each.
\<close>

theorem cross_check_direction:
  "fst (SetApplicationRetainHeight ledger_1_100 50
          (fresh\<lparr>db := [CompanionBlockRetainHeightKey \<mapsto> 30]\<rparr>)) = None
   \<and> fst (SetApplicationRetainHeight ledger_1_100 30
          (fresh\<lparr>db := [CompanionBlockRetainHeightKey \<mapsto> 50]\<rparr>))
       = Some ErrRetainHeightRegression"
  by (simp add: SetApplicationRetainHeight_def store_defs ledger_1_100_def fresh_def)

text \<open>
  C7, amended. For a valid height \<open>h\<close>, the reads going through: setting the
  application's watermark to \<open>h\<close> fails with the regression error when the companion's
  watermark is already set above \<open>h\<close>, and succeeds, persisting \<open>h\<close>, when the companion's
  watermark is set at or below \<open>h\<close>, the application's own is not above \<open>h\<close> and the store
  accepts the write. The same holds with the two stakeholders exchanged.
\<close>

theorem cross_stakeholder_check:
  assumes "0 < h" "ledger_base p \<le> h" "h \<le> ledger_height p"
    and "get_fault p AppRetainHeightKey = None"
    and "get_fault p CompanionBlockRetainHeightKey = None"
  shows
   "(db w CompanionBlockRetainHeightKey = Some c \<and> h < c
      \<longrightarrow> fst (SetApplicationRetainHeight p h w) = Some ErrRetainHeightRegression)
    \<and> (db w CompanionBlockRetainHeightKey = Some c \<and> c \<le> h
         \<and> not_above (db w AppRetainHeightKey) h \<and> save_fault p AppRetainHeightKey = None
      \<longrightarrow> fst (SetApplicationRetainHeight p h w) = None
        \<and> db (snd (SetApplicationRetainHeight p h w)) = (db w)(AppRetainHeightKey \<mapsto> h))
    \<and> (db w AppRetainHeightKey = Some a \<and> h < a
      \<longrightarrow> fst (SetCompanionRetainHeight p h w) = Some ErrRetainHeightRegression)
    \<and> (db w AppRetainHeightKey = Some a \<and> a \<le> h
         \<and> not_above (db w CompanionBlockRetainHeightKey) h
         \<and> save_fault p CompanionBlockRetainHeightKey = None
      \<longrightarrow> fst (SetCompanionRetainHeight p h w) = None
        \<and> db (snd (SetCompanionRetainHeight p h w)) =
            (db w)(CompanionBlockRetainHeightKey \<mapsto> h))"
  using assms
  by (auto simp add: SetApplicationRetainHeight_in_range SetCompanionRetainHeight_in_range
        not_above_def store_defs Let_def split: option.splits)

theorem cross_stakeholder_check_witness:
  "fst (SetApplicationRetainHeight ledger_1_100 40
          (fresh\<lparr>db := [CompanionBlockRetainHeightKey \<mapsto> 60]\<rparr>))
     = Some ErrRetainHeightRegression
   \<and> fst (SetCompanionRetainHeight ledger_1_100 40
          (fresh\<lparr>db := [AppRetainHeightKey \<mapsto> 20]\<rparr>)) = None
   \<and> db (snd (SetCompanionRetainHeight ledger_1_100 40
          (fresh\<lparr>db := [AppRetainHeightKey \<mapsto> 20]\<rparr>)))
     = [AppRetainHeightKey \<mapsto> 20, CompanionBlockRetainHeightKey \<mapsto> 40]"
  using cross_stakeholder_check
      [of 40 ledger_1_100 "fresh\<lparr>db := [CompanionBlockRetainHeightKey \<mapsto> 60]\<rparr>" 60 0]
    cross_stakeholder_check
      [of 40 ledger_1_100 "fresh\<lparr>db := [AppRetainHeightKey \<mapsto> 20]\<rparr>" 0 20]
  by (simp add: ledger_1_100_def fresh_def not_above_def)

section \<open>The prune executor: results\<close>

lemma pruneBlocks_not_positive:
  "height \<le> 0 \<Longrightarrow> pruneBlocks p height w = ((0, 0, Some ErrRetainHeightNotPositive), w)"
  by (simp add: pruneBlocks_def)

lemma pruneBlocks_load_failed:
  assumes "0 < height" "snd (load_result p) = Some e"
  shows "pruneBlocks p height w =
     ((0, 0, Some e), w\<lparr>calls := calls w @ [BaseCall, LoadCall]\<rparr>)"
  using assms
  by (cases "load_result p") (simp add: pruneBlocks_def store_defs logged_def)

text \<open>
  Once the state is loaded, the run is always the same four calls, whatever the ledger
  answers: the ledger's count and floor are returned, with the error of \<open>PruneStates\<close>.
\<close>

lemma pruneBlocks_loaded:
  assumes "0 < height" "load_result p = (st, None)"
    and "prune_blocks_result p height st = (pruned, ev, lerr)"
  shows "pruneBlocks p height w =
     ((pruned, ev, prune_states_result p (ledger_base p) height ev),
      w\<lparr>calls := calls w @ [BaseCall, LoadCall, PruneBlocksCall height st,
                            PruneStatesCall (ledger_base p) height ev]\<rparr>)"
  using assms
  by (simp add: pruneBlocks_def store_defs logged_def)

text \<open>
  C3, as stated, on a ledger whose prune fails while the state store's prune succeeds:
  the error returned is \<open>nil\<close>, so the ledger's failure is not reported.
\<close>

theorem ledger_failure_not_returned:
  "snd (snd (prune_blocks_result failing_ledger 10 ())) = Some (StoreError ''ledger unavailable'')
   \<and> prune_states_result failing_ledger 1 10 (- 1) = None
   \<and> snd (snd (fst (pruneBlocks failing_ledger 10 fresh))) = None"
  by (simp add: pruneBlocks_def store_defs failing_ledger_def ledger_1_100_def fresh_def)

text \<open>
  C3, amended. For a positive height and a consensus state that loads, the state store's
  prune is commanded after the ledger's, whether or not the ledger's prune failed, and
  the error returned is the one of the state store's prune: it is not \<open>nil\<close> exactly when
  the state store's prune failed. The failure of the ledger's prune is not returned.
\<close>

theorem pruneBlocks_returns_state_prune_error:
  assumes "0 < height" "load_result p = (st, None)"
    and "prune_blocks_result p height st = (pruned, ev, lerr)"
  shows "calls (snd (pruneBlocks p height w)) =
           calls w @ [BaseCall, LoadCall, PruneBlocksCall height st,
                      PruneStatesCall (ledger_base p) height ev]
       \<and> snd (snd (fst (pruneBlocks p height w))) =
           prune_states_result p (ledger_base p) height ev
       \<and> (snd (snd (fst (pruneBlocks p height w))) \<noteq> None
            \<longleftrightarrow> prune_states_result p (ledger_base p) height ev \<noteq> None)"
  using pruneBlocks_loaded [OF assms, of w] by simp

theorem pruneBlocks_returns_state_prune_error_witness:
  "snd (snd (fst (pruneBlocks
       (failing_ledger\<lparr>prune_states_result := (\<lambda>_ _ _. Some (StoreError ''disk full''))\<rparr>)
       10 fresh))) = Some (StoreError ''disk full'')
   \<and> calls (snd (pruneBlocks
       (failing_ledger\<lparr>prune_states_result := (\<lambda>_ _ _. Some (StoreError ''disk full''))\<rparr>)
       10 fresh)) = [BaseCall, LoadCall, PruneBlocksCall 10 (), PruneStatesCall 1 10 (- 1)]"
  using pruneBlocks_returns_state_prune_error
    [of 10 "failing_ledger\<lparr>prune_states_result := (\<lambda>_ _ _. Some (StoreError ''disk full''))\<rparr>"
        "()" 0 "- 1" "Some (StoreError ''ledger unavailable'')" fresh]
  by (simp add: failing_ledger_def ledger_1_100_def fresh_def)

text \<open>
  C8. A height that is not positive fails at once with the error made for it, and no call
  is made on either store. For a positive height, when loading the consensus state fails,
  the load's error is returned with a zero count and a zero floor; the ledger was asked
  for its base and the state store for the state, and neither prune was commanded.
\<close>

theorem pruneBlocks_aborts:
  "(height \<le> 0 \<longrightarrow>
      pruneBlocks p height w = ((0, 0, Some ErrRetainHeightNotPositive), w))
   \<and> (0 < height \<and> snd (load_result p) = Some e \<longrightarrow>
      pruneBlocks p height w =
        ((0, 0, Some e), w\<lparr>calls := calls w @ [BaseCall, LoadCall]\<rparr>))"
  using pruneBlocks_not_positive [of height p w] pruneBlocks_load_failed [of height p e w]
  by blast

theorem pruneBlocks_aborts_witness:
  "pruneBlocks ledger_1_100 0 fresh = ((0, 0, Some ErrRetainHeightNotPositive), fresh)
   \<and> pruneBlocks failing_load 10 fresh =
       ((0, 0, Some (StoreError ''no state'')), fresh\<lparr>calls := [BaseCall, LoadCall]\<rparr>)"
  using pruneBlocks_aborts [of 0 ledger_1_100 fresh]
    pruneBlocks_aborts [of 10 failing_load fresh "StoreError ''no state''"]
  by (simp add: failing_load_def ledger_1_100_def fresh_def)

text \<open>
  C10, as stated, on a ledger that answers a failed prune with the floor \<open>-1\<close>: the state
  store's prune is commanded with \<open>-1\<close>, not with 0.
\<close>

theorem failed_ledger_floor_passed_on:
  "calls (snd (pruneBlocks failing_ledger 10 fresh)) =
     [BaseCall, LoadCall, PruneBlocksCall 10 (), PruneStatesCall 1 10 (- 1)]
   \<and> PruneStatesCall 1 10 0 \<notin> set (calls (snd (pruneBlocks failing_ledger 10 fresh)))"
  by (simp add: pruneBlocks_def store_defs failing_ledger_def ledger_1_100_def fresh_def)

text \<open>
  C10, amended. When the ledger's prune fails, the state store's prune is still the next
  and last call, and it receives the ledger's base, the height, and the floor that the
  failed ledger call gave back, unchanged: 0 when the ledger gives back 0 with its error.
\<close>

theorem pruneBlocks_after_ledger_failure:
  assumes "0 < height" "load_result p = (st, None)"
    and "prune_blocks_result p height st = (pruned, ev, Some e)"
  shows "calls (snd (pruneBlocks p height w)) =
           calls w @ [BaseCall, LoadCall, PruneBlocksCall height st,
                      PruneStatesCall (ledger_base p) height ev]
       \<and> fst (snd (fst (pruneBlocks p height w))) = ev"
  using pruneBlocks_loaded [OF assms, of w] by simp

theorem pruneBlocks_after_ledger_failure_witness:
  "calls (snd (pruneBlocks
       (ledger_1_100\<lparr>prune_blocks_result := (\<lambda>_ _. (0, 0, Some (StoreError ''ledger unavailable'')))\<rparr>)
       10 fresh)) = [BaseCall, LoadCall, PruneBlocksCall 10 (), PruneStatesCall 1 10 0]"
  using pruneBlocks_after_ledger_failure
    [of 10 "ledger_1_100\<lparr>prune_blocks_result := (\<lambda>_ _. (0, 0, Some (StoreError ''ledger unavailable'')))\<rparr>"
        "()" 0 0 "StoreError ''ledger unavailable''" fresh]
  by (simp add: ledger_1_100_def fresh_def)

section \<open>The scheduler: results\<close>

text \<open>No pass of the loop assigns the variable that tracks the ABCI-results pruning.\<close>

lemma pruningIteration_lastABCIResPrunedHeight:
  "lastABCIResPrunedHeight (fst (pruningIteration p (l, w))) = lastABCIResPrunedHeight l"
  by (simp add: pruningIteration_def Let_def split: prod.splits)

text \<open>
  C4. After a successful read of an ABCI-results watermark that differs from the tracked
  value, the loop is to prune and to track the value read, so that an unchanged watermark
  is not pruned again. The code prunes but never assigns the tracked value, unlike the
  block path, which assigns \<open>lastHeightPruned\<close>: with the watermark at 5 and nothing else
  set, two passes command the pruning of ABCI responses at 5 twice, and the tracked value
  is still 0.
\<close>

theorem pruningRoutine_prunes_abci_again:
  "pruningRoutine [ledger_1_100, ledger_1_100]
       (fresh\<lparr>db := [ABCIResultsRetainHeightKey \<mapsto> 5]\<rparr>)
   = (\<lparr>lastHeightPruned = 0, lastABCIResPrunedHeight = 0\<rparr>,
      \<lparr>db = [ABCIResultsRetainHeightKey \<mapsto> 5],
       calls = [GetCall AppRetainHeightKey, GetCall CompanionBlockRetainHeightKey,
                GetCall ABCIResultsRetainHeightKey, PruneABCIResponsesCall 5,
                GetCall AppRetainHeightKey, GetCall CompanionBlockRetainHeightKey,
                GetCall ABCIResultsRetainHeightKey, PruneABCIResponsesCall 5]\<rparr>)"
  by (simp add: pruningRoutine_def pruningIteration_def FindMinRetainHeight_def store_defs
        ledger_1_100_def fresh_def)

end
